theory Spec2Isabelle
  imports Complex_Main
begin

section \<open>Derived classifications of the dashboards\<close>

text \<open>
  Python numbers are modelled by their values: an \<open>int\<close> is a HOL \<open>int\<close>, a finite
  \<open>float\<close> is the \<open>real\<close> it denotes. The comparisons below are against the literals
  100, 50, 75, 5 and 4.0, which are exactly representable, so the comparison of a finite
  float is the comparison of its real value. Float arithmetic is another matter: the
  difference of two floats is rounded to a float, so it need not be the difference of
  their values. Where a classification reads the result of a float subtraction, the
  subtraction is a parameter of the model and the classification is stated on its result.
\<close>

subsection \<open>Particle-count risk (views/citizen.py)\<close>

text \<open>
  Lines 253 and 360 of views/citizen.py:
  \<^verbatim>\<open>'High' if particle_count > 100 else 'Moderate' if particle_count > 50 else 'Low'\<close>
\<close>

definition risk_level :: "int \<Rightarrow> string" where
  "risk_level particle_count =
     (if particle_count > 100 then ''High''
      else if particle_count > 50 then ''Moderate''
      else ''Low'')"

text \<open>
  Lines 170-211 of views/citizen.py, the health impact box: the same two comparisons, the
  boxes carrying the labels SEVERE, MODERATE and LOW.
\<close>

definition impact_risk :: "int \<Rightarrow> string" where
  "impact_risk particle_count =
     (if particle_count > 100 then ''SEVERE''
      else if particle_count > 50 then ''MODERATE''
      else ''LOW'')"

subsection \<open>Role and confidence threshold (app.py)\<close>

text \<open>Python's \<^verbatim>\<open>needle in haystack\<close> on strings: a contiguous occurrence.\<close>

fun starts_with :: "string \<Rightarrow> string \<Rightarrow> bool" where
  "starts_with [] s = True"
| "starts_with (c # cs) [] = False"
| "starts_with (c # cs) (d # ds) = (c = d \<and> starts_with cs ds)"

fun str_contains :: "string \<Rightarrow> string \<Rightarrow> bool" where
  "str_contains needle [] = (needle = [])"
| "str_contains needle (d # ds) = (starts_with needle (d # ds) \<or> str_contains needle ds)"

text \<open>
  The four options of the radio widget (app.py, line 186). Each label starts with an emoji;
  the strings below hold the UTF-8 bytes of the source file. The needles are ASCII, so an
  occurrence among the bytes is an occurrence among the code points.
\<close>

definition role_public :: string where
  "role_public = [CHR 0xF0, CHR 0x9F, CHR 0x91, CHR 0xA5] @ '' Public User''"

definition role_government :: string where
  "role_government =
     [CHR 0xF0, CHR 0x9F, CHR 0x8F, CHR 0x9B, CHR 0xEF, CHR 0xB8, CHR 0x8F] @
     '' Government Official''"

definition role_researcher :: string where
  "role_researcher = [CHR 0xF0, CHR 0x9F, CHR 0x94, CHR 0xAC] @ '' Researcher''"

definition role_admin :: string where
  "role_admin = [CHR 0xE2, CHR 0x9A, CHR 0x99, CHR 0xEF, CHR 0xB8, CHR 0x8F] @ '' Admin Panel''"

definition role_options :: "string list" where
  "role_options = [role_public, role_government, role_researcher, role_admin]"

text \<open>app.py, lines 190-216: the if/elif chain that sets \<^verbatim>\<open>confidence\<close>.\<close>

definition confidence :: "string \<Rightarrow> real" where
  "confidence role =
     (if str_contains ''Public'' role then 0.50
      else if str_contains ''Government'' role then 0.35
      else if str_contains ''Researcher'' role then 0.10
      else 0.10)"

subsection \<open>Score band and simulation trend (views/government.py)\<close>

text \<open>
  Line 248:
  \<^verbatim>\<open>'#2ecc71' if wqi_score > 75 else '#f39c12' if wqi_score > 50 else '#e74c3c'\<close>
  (green, amber, red).
\<close>

definition wqi_color :: "real \<Rightarrow> string" where
  "wqi_color wqi_score =
     (if wqi_score > 75 then ''#2ecc71''
      else if wqi_score > 50 then ''#f39c12''
      else ''#e74c3c'')"




section \<open>The complete analysis pipeline (views/government.py, lines 88-217)\<close>

subsection \<open>Python values, dictionaries and exceptions\<close>

text \<open>
  The values the result dictionaries of the pipeline hold: numbers, strings, the
  particle-type histogram (a dictionary from label to count), numpy arrays, and the
  forecast data frame (rows of date and predicted score; a date is a number of
  microseconds since the epoch).
\<close>

datatype pyval =
    PInt int
  | PFloat real
  | PStr string
  | PCounts "(string \<times> int) list"
  | PArray "real list"
  | PFrame "(int \<times> real) list"

type_synonym pydict = "string \<rightharpoonup> pyval"

text \<open>
  The subclasses of \<^verbatim>\<open>Exception\<close> that occur: a failed import, a missing key, a local
  variable read before its assignment, an operand of the wrong type or shape, and any
  other exception a collaborator raises.
\<close>

datatype py_exn =
    ImportError string
  | KeyError string
  | UnboundLocalError string
  | TypeError string
  | ValueError string
  | RuntimeError string

text \<open>\<^verbatim>\<open>str(e)\<close>: the message; a \<^verbatim>\<open>KeyError\<close> prints its key in quotes.\<close>

fun str_exn :: "py_exn \<Rightarrow> string" where
  "str_exn (ImportError m) = m"
| "str_exn (KeyError k) = [CHR 0x27] @ k @ [CHR 0x27]"
| "str_exn (UnboundLocalError m) = m"
| "str_exn (TypeError m) = m"
| "str_exn (ValueError m) = m"
| "str_exn (RuntimeError m) = m"

text \<open>\<^verbatim>\<open>d[k]\<close> raises \<^verbatim>\<open>KeyError\<close> on a missing key; \<^verbatim>\<open>d.get(k, default)\<close> does not.\<close>

definition subscript :: "pydict \<Rightarrow> string \<Rightarrow> py_exn + pyval" where
  "subscript d k = (case d k of None \<Rightarrow> Inl (KeyError k) | Some v \<Rightarrow> Inr v)"

definition dict_get :: "pydict \<Rightarrow> string \<Rightarrow> pyval \<Rightarrow> pyval" where
  "dict_get d k dflt = (case d k of None \<Rightarrow> dflt | Some v \<Rightarrow> v)"

definition then_do :: "py_exn + 'a \<Rightarrow> ('a \<Rightarrow> py_exn + 'b) \<Rightarrow> py_exn + 'b" where
  "then_do r k = (case r of Inl e \<Rightarrow> Inl e | Inr v \<Rightarrow> k v)"

text \<open>\<^verbatim>\<open>try: body  except Exception as e: handler\<close>.\<close>

definition try_except :: "py_exn + 'a \<Rightarrow> (py_exn \<Rightarrow> py_exn + 'a) \<Rightarrow> py_exn + 'a" where
  "try_except body handler = (case body of Inl e \<Rightarrow> handler e | Inr v \<Rightarrow> Inr v)"

subsection \<open>numpy and pandas operations the fallbacks use\<close>

text \<open>
  \<^verbatim>\<open>value + array\<close> for a one-dimensional float array: a number is added to every
  entry, an array of the same length entrywise, an array of length one is broadcast; other
  shapes and other types raise.
\<close>

fun np_add :: "pyval \<Rightarrow> real list \<Rightarrow> py_exn + real list" where
  "np_add (PInt i) arr = Inr (map (\<lambda>x. real_of_int i + x) arr)"
| "np_add (PFloat v) arr = Inr (map (\<lambda>x. v + x) arr)"
| "np_add (PArray xs) arr =
     (if length xs = length arr then Inr (map (\<lambda>(a, b). a + b) (zip xs arr))
      else if length xs = 1 then Inr (map (\<lambda>x. hd xs + x) arr)
      else if length arr = 1 then Inr (map (\<lambda>x. x + hd arr) xs)
      else Inl (ValueError ''operands could not be broadcast together''))"
| "np_add (PStr s) arr = Inl (TypeError ''ufunc add: str and float'')"
| "np_add (PCounts c) arr = Inl (TypeError ''unsupported operand: dict and ndarray'')"
| "np_add (PFrame f) arr = Inl (ValueError ''unable to coerce to Series'')"

text \<open>\<^verbatim>\<open>value * 10\<close>: numbers multiply, a string is repeated, a dictionary raises.\<close>

fun py_times_10 :: "pyval \<Rightarrow> py_exn + pyval" where
  "py_times_10 (PInt i) = Inr (PInt (i * 10))"
| "py_times_10 (PFloat v) = Inr (PFloat (v * 10))"
| "py_times_10 (PStr s) = Inr (PStr (concat (replicate 10 s)))"
| "py_times_10 (PArray xs) = Inr (PArray (map (\<lambda>x. x * 10) xs))"
| "py_times_10 (PCounts c) = Inl (TypeError ''unsupported operand: dict and int'')"
| "py_times_10 (PFrame f) = Inl (TypeError ''unsupported operand: datetime and int'')"

definition microseconds_per_day :: int where
  "microseconds_per_day = 86400000000"

text \<open>\<^verbatim>\<open>pd.date_range(start=s, periods=n, freq='D')\<close>: \<open>n\<close> dates, one day apart, from \<open>s\<close>.\<close>

definition date_range :: "int \<Rightarrow> nat \<Rightarrow> int list" where
  "date_range start periods = map (\<lambda>k. start + int k * microseconds_per_day) [0..<periods]"

text \<open>
  \<^verbatim>\<open>np.random.randn(n)\<close> and \<^verbatim>\<open>np.random.rand(n)\<close>: an array of \<open>n\<close> draws. What is
  drawn in a run is a parameter of the run, a sequence of samples.
\<close>

definition draw :: "(nat \<Rightarrow> real) \<Rightarrow> nat \<Rightarrow> real list" where
  "draw samples n = map samples [0..<n]"

text \<open>\<^verbatim>\<open>np.linspace(a, b, n)\<close>: \<open>n\<close> evenly spaced points from \<open>a\<close> to \<open>b\<close> inclusive.\<close>

definition linspace :: "real \<Rightarrow> real \<Rightarrow> nat \<Rightarrow> real list" where
  "linspace a b n = map (\<lambda>i. a + real i * ((b - a) / real (n - 1))) [0..<n]"

text \<open>\<^verbatim>\<open>np.arange(n)\<close>.\<close>

definition arange :: "nat \<Rightarrow> real list" where
  "arange n = map real [0..<n]"

text \<open>\<^verbatim>\<open>np.cumsum\<close>: the running sums.\<close>

fun cumsum_from :: "real \<Rightarrow> real list \<Rightarrow> real list" where
  "cumsum_from acc [] = []"
| "cumsum_from acc (x # xs) = (acc + x) # cumsum_from (acc + x) xs"

definition cumsum :: "real list \<Rightarrow> real list" where
  "cumsum xs = cumsum_from 0 xs"

text \<open>\<^verbatim>\<open>np.mean\<close>.\<close>

definition np_mean :: "real list \<Rightarrow> real" where
  "np_mean xs = sum_list xs / real (length xs)"

text \<open>\<^verbatim>\<open>time_hours[do_pred < 4.0]\<close>: the entries of the first array where the mask holds.\<close>

definition mask_below :: "real list \<Rightarrow> real list \<Rightarrow> real \<Rightarrow> real list" where
  "mask_below time_hours do_pred level =
     map fst (filter (\<lambda>(t, d). d < level) (zip time_hours do_pred))"

subsection \<open>Collaborators, submission and the environment of a run\<close>

text \<open>
  The six models live in the package \<^verbatim>\<open>models\<close>, which is imported inside each
  \<^verbatim>\<open>try\<close> block. A collaborator is either missing (the import raises) or loaded, and
  a loaded one either raises or returns a dictionary.
\<close>

datatype 'a collaborator =
    Missing py_exn
  | Loaded "'a \<Rightarrow> py_exn + pydict"

record collaborators =
  predict_image_with_viz :: "(string \<times> real \<times> string) collaborator"
  predict_polymer :: "real list collaborator"
  predict_wqi :: "pydict collaborator"
  forecast_wqi :: "pyval collaborator"
  predict_dissolved_oxygen :: "(pydict \<times> int) collaborator"
  run_digital_twin_simulation :: "(pydict \<times> int) collaborator"

text \<open>
  The widgets of the tab: the uploaded file (absent until the user uploads one) and the
  twelve number inputs (lines 51-85).
\<close>

record submission =
  uploaded :: "string option"
  temperature :: real
  ph :: real
  turbidity :: real
  dissolved_oxygen :: real
  conductivity :: real
  bod :: real
  cod :: real
  tds :: real
  nitrate :: real
  phosphate :: real
  chloride :: real
  fecal_coliform :: int

text \<open>
  What a run reads from outside: the clock (\<^verbatim>\<open>datetime.now()\<close>) and the samples the
  three calls of the random generator draw (\<^verbatim>\<open>rand(1024)\<close> of stage 2,
  \<^verbatim>\<open>randn(60)\<close> of stage 4, \<^verbatim>\<open>randn(30)\<close> of stage 6).
\<close>

record run_env =
  now :: int
  rand_spectrum :: "nat \<Rightarrow> real"
  randn_forecast :: "nat \<Rightarrow> real"
  randn_twin :: "nat \<Rightarrow> real"

record report =
  yolo_result :: pydict
  raman_result :: pydict
  wqi_result :: pydict
  forecast_result :: pydict
  pinn_result :: pydict
  twin_result :: pydict

subsection \<open>The six steps\<close>

text \<open>
  Each step is a \<^verbatim>\<open>try\<close> block (the attempt: the import, then the call) and a
  handler that builds the fallback dictionary. Step 1, lines 100-106.
\<close>

definition attempt1 :: "collaborators \<Rightarrow> string \<Rightarrow> py_exn + pydict" where
  "attempt1 cs img =
     (case predict_image_with_viz cs of
        Missing e \<Rightarrow> Inl e
      | Loaded f \<Rightarrow> f (img, 0.35, ''Government''))"

definition step1 :: "collaborators \<Rightarrow> string \<Rightarrow> py_exn + pydict" where
  "step1 cs img =
     try_except (attempt1 cs img)
       (\<lambda>e. Inr [''count'' \<mapsto> PInt 0, ''particle_types'' \<mapsto> PCounts [],
                  ''error'' \<mapsto> PStr (str_exn e)])"

text \<open>Step 2, lines 112-120. The spectrum is drawn after the import succeeded.\<close>

definition attempt2 :: "collaborators \<Rightarrow> run_env \<Rightarrow> py_exn + pydict" where
  "attempt2 cs env =
     (case predict_polymer cs of
        Missing e \<Rightarrow> Inl e
      | Loaded f \<Rightarrow> f (draw (rand_spectrum env) 1024))"

definition step2 :: "collaborators \<Rightarrow> run_env \<Rightarrow> py_exn + pydict" where
  "step2 cs env =
     try_except (attempt2 cs env)
       (\<lambda>e. Inr [''polymer'' \<mapsto> PStr ''PE'', ''confidence'' \<mapsto> PFloat 0.85,
                  ''error'' \<mapsto> PStr (str_exn e)])"

text \<open>Lines 128-145: the feature dictionary handed to the index model.\<close>

definition wqi_features_of :: "submission \<Rightarrow> pydict" where
  "wqi_features_of sub =
     [''temperature'' \<mapsto> PFloat (temperature sub),
      ''ph'' \<mapsto> PFloat (ph sub),
      ''dissolved_oxygen'' \<mapsto> PFloat (dissolved_oxygen sub),
      ''conductivity'' \<mapsto> PFloat (conductivity sub),
      ''turbidity'' \<mapsto> PFloat (turbidity sub),
      ''tds'' \<mapsto> PFloat (tds sub),
      ''bod'' \<mapsto> PFloat (bod sub),
      ''cod'' \<mapsto> PFloat (cod sub),
      ''nitrate'' \<mapsto> PFloat (nitrate sub),
      ''phosphate'' \<mapsto> PFloat (phosphate sub),
      ''fecal_coliform'' \<mapsto> PInt (fecal_coliform sub),
      ''total_coliform'' \<mapsto> PInt (fecal_coliform sub * 8),
      ''chloride'' \<mapsto> PFloat (chloride sub),
      ''fluoride'' \<mapsto> PFloat 0.8,
      ''hardness'' \<mapsto> PInt 180,
      ''alkalinity'' \<mapsto> PInt 120]"

text \<open>
  Step 3, lines 126-150. The local variable \<^verbatim>\<open>wqi_features\<close> is assigned inside the
  \<^verbatim>\<open>try\<close>, after the import: when the import raises it stays unbound. The step returns
  the result together with the binding of \<^verbatim>\<open>wqi_features\<close>.
\<close>

definition wqi_fallback :: "py_exn \<Rightarrow> pydict" where
  "wqi_fallback e =
     [''wqi_score'' \<mapsto> PFloat 52.3, ''classification'' \<mapsto> PStr ''Moderate'',
      ''error'' \<mapsto> PStr (str_exn e)]"

definition step3 :: "collaborators \<Rightarrow> submission \<Rightarrow> py_exn + (pydict \<times> pydict option)" where
  "step3 cs sub =
     (case predict_wqi cs of
        Missing e \<Rightarrow> Inr (wqi_fallback e, None)
      | Loaded f \<Rightarrow>
          (case f (wqi_features_of sub) of
             Inl e \<Rightarrow> Inr (wqi_fallback e, Some (wqi_features_of sub))
           | Inr r \<Rightarrow> Inr (r, Some (wqi_features_of sub))))"

text \<open>
  Step 4, lines 156-168. The handler reads \<^verbatim>\<open>wqi_result['wqi_score']\<close> again, outside
  any \<^verbatim>\<open>try\<close>.
\<close>

definition mock_forecast :: "int \<Rightarrow> (nat \<Rightarrow> real) \<Rightarrow> pyval \<Rightarrow> py_exn + (int \<times> real) list" where
  "mock_forecast start samples score =
     then_do (np_add score (map (\<lambda>z. z * 5) (draw samples 60)))
       (\<lambda>forecast. Inr (zip (date_range start 60) forecast))"

definition attempt4 :: "collaborators \<Rightarrow> pydict \<Rightarrow> py_exn + pydict" where
  "attempt4 cs wqi =
     (case forecast_wqi cs of
        Missing e \<Rightarrow> Inl e
      | Loaded f \<Rightarrow> then_do (subscript wqi ''wqi_score'') f)"

definition step4 :: "collaborators \<Rightarrow> run_env \<Rightarrow> pydict \<Rightarrow> py_exn + pydict" where
  "step4 cs env wqi =
     try_except (attempt4 cs wqi)
       (\<lambda>e. then_do (subscript wqi ''wqi_score'')
          (\<lambda>score. then_do (mock_forecast (now env) (randn_forecast env) score)
             (\<lambda>df. Inr [''forecast_df'' \<mapsto> PFrame df, ''error'' \<mapsto> PStr (str_exn e)])))"

text \<open>Step 5, lines 174-189.\<close>

definition mock_do_pred :: "real \<Rightarrow> real list \<Rightarrow> real list" where
  "mock_do_pred do_level time_hours =
     map (\<lambda>t. do_level + sin (t / 12) * 2 - t / 72 * 3) time_hours"

definition pinn_fallback :: "real \<Rightarrow> py_exn \<Rightarrow> pydict" where
  "pinn_fallback do_level e =
     (let time_hours = linspace 0 72 100;
          do_pred = mock_do_pred do_level time_hours
      in [''time_hours'' \<mapsto> PArray time_hours,
          ''do_predictions'' \<mapsto> PArray do_pred,
          ''mean_do'' \<mapsto> PFloat (np_mean do_pred),
          ''critical_hours'' \<mapsto> PArray (mask_below time_hours do_pred 4.0),
          ''error'' \<mapsto> PStr (str_exn e)])"

definition attempt5 :: "collaborators \<Rightarrow> pydict option \<Rightarrow> py_exn + pydict" where
  "attempt5 cs wqi_features =
     (case predict_dissolved_oxygen cs of
        Missing e \<Rightarrow> Inl e
      | Loaded f \<Rightarrow>
          (case wqi_features of
             None \<Rightarrow> Inl (UnboundLocalError ''wqi_features'')
           | Some features \<Rightarrow> f (features, 72)))"

definition step5 :: "collaborators \<Rightarrow> submission \<Rightarrow> pydict option \<Rightarrow> py_exn + pydict" where
  "step5 cs sub wqi_features =
     try_except (attempt5 cs wqi_features)
       (\<lambda>e. Inr (pinn_fallback (dissolved_oxygen sub) e))"

text \<open>Step 6, lines 195-215.\<close>

definition twin_fallback :: "(nat \<Rightarrow> real) \<Rightarrow> pyval \<Rightarrow> py_exn \<Rightarrow> py_exn + pydict" where
  "twin_fallback samples score e =
     then_do (np_add score (map (\<lambda>c. c * 2) (cumsum (draw samples 30))))
       (\<lambda>wqi_sim. Inr [''days'' \<mapsto> PArray (arange 30),
                        ''wqi_trajectory'' \<mapsto> PArray wqi_sim,
                        ''final_wqi'' \<mapsto> PFloat (last wqi_sim),
                        ''error'' \<mapsto> PStr (str_exn e)])"

definition attempt6 :: "collaborators \<Rightarrow> pydict \<Rightarrow> pydict \<Rightarrow> py_exn + pydict" where
  "attempt6 cs yolo wqi =
     (case run_digital_twin_simulation cs of
        Missing e \<Rightarrow> Inl e
      | Loaded f \<Rightarrow>
          then_do (py_times_10 (dict_get yolo ''count'' (PInt 0)))
            (\<lambda>pollution_load. then_do (subscript wqi ''wqi_score'')
               (\<lambda>initial_wqi.
                  f ([''pollution_load'' \<mapsto> pollution_load,
                      ''cleanup_frequency'' \<mapsto> PFloat 0.2,
                      ''regulation_strictness'' \<mapsto> PFloat 0.7,
                      ''initial_wqi'' \<mapsto> initial_wqi], 30))))"

definition step6 :: "collaborators \<Rightarrow> run_env \<Rightarrow> pydict \<Rightarrow> pydict \<Rightarrow> py_exn + pydict" where
  "step6 cs env yolo wqi =
     try_except (attempt6 cs yolo wqi)
       (\<lambda>e. then_do (subscript wqi ''wqi_score'') (\<lambda>score. twin_fallback (randn_twin env) score e))"

subsection \<open>The run\<close>

text \<open>
  The body under \<^verbatim>\<open>if uploaded:\<close> up to "Analysis complete" (line 217): the six steps
  in order. An exception that leaves a step leaves the run.
\<close>

definition run_pipeline :: "collaborators \<Rightarrow> run_env \<Rightarrow> string \<Rightarrow> submission \<Rightarrow> py_exn + report" where
  "run_pipeline cs env img sub =
     then_do (step1 cs img) (\<lambda>yolo.
     then_do (step2 cs env) (\<lambda>raman.
     then_do (step3 cs sub) (\<lambda>(wqi, wqi_features).
     then_do (step4 cs env wqi) (\<lambda>forecast.
     then_do (step5 cs sub wqi_features) (\<lambda>pinn.
     then_do (step6 cs env yolo wqi) (\<lambda>twin.
       Inr \<lparr>yolo_result = yolo, raman_result = raman, wqi_result = wqi,
            forecast_result = forecast, pinn_result = pinn, twin_result = twin\<rparr>))))))"

text \<open>
  Lines 88-89 and 437-438: the button runs the pipeline only when a file is uploaded;
  otherwise it shows a warning and nothing runs.
\<close>

definition on_run_button :: "collaborators \<Rightarrow> run_env \<Rightarrow> submission \<Rightarrow> (py_exn + report) option" where
  "on_run_button cs env sub =
     (case uploaded sub of
        None \<Rightarrow> None
      | Some img \<Rightarrow> Some (run_pipeline cs env img sub))"

text \<open>
  A result produced by a handler carries the key \<^verbatim>\<open>'error'\<close> with the reason; that key
  is the mark of a degraded stage.
\<close>

definition degraded :: "pydict \<Rightarrow> bool" where
  "degraded d = (d ''error'' \<noteq> None)"

definition degraded_stages :: "report \<Rightarrow> string list" where
  "degraded_stages r =
     map fst (filter (\<lambda>(name, d). degraded d)
       [(''detection'', yolo_result r), (''polymer'', raman_result r),
        (''wqi'', wqi_result r), (''forecast'', forecast_result r),
        (''physics'', pinn_result r), (''simulation'', twin_result r)])"

subsection \<open>The oxygen alert of the report (lines 343-350)\<close>

text \<open>\<^verbatim>\<open>len(v)\<close>: numbers have no length.\<close>

fun py_len :: "pyval \<Rightarrow> py_exn + nat" where
  "py_len (PInt i) = Inl (TypeError ''object of type int has no len()'')"
| "py_len (PFloat v) = Inl (TypeError ''object of type float has no len()'')"
| "py_len (PStr s) = Inr (length s)"
| "py_len (PCounts c) = Inr (length c)"
| "py_len (PArray xs) = Inr (length xs)"
| "py_len (PFrame f) = Inr (length f)"

datatype do_message = Alert nat | Safe

text \<open>
  \<^verbatim>\<open>if len(pinn_result.get('critical_hours', [])) > 0:\<close> an error box with that
  length as the number of time points, \<^verbatim>\<open>else:\<close> a success box.
\<close>

definition do_status :: "pydict \<Rightarrow> py_exn + do_message" where
  "do_status pinn =
     then_do (py_len (dict_get pinn ''critical_hours'' (PArray [])))
       (\<lambda>n. if n > 0 then Inr (Alert n) else Inr Safe)"

text \<open>The prediction sequence of a physics result.\<close>

definition do_predictions_of :: "pydict \<Rightarrow> real list" where
  "do_predictions_of pinn =
     (case pinn ''do_predictions'' of Some (PArray xs) \<Rightarrow> xs | _ \<Rightarrow> [])"

text \<open>
  The specification's rule, in its own words: the count is the number of predicted values
  strictly below 4.0, and the alert is raised exactly when there is one.
\<close>

definition spec_do_status :: "real list \<Rightarrow> do_message" where
  "spec_do_status predictions =
     (let n = length (filter (\<lambda>d. d < 4.0) predictions)
      in if n > 0 then Alert n else Safe)"

subsection \<open>Shapes of results\<close>

definition forecast_rows :: "pydict \<Rightarrow> (int \<times> real) list option" where
  "forecast_rows forecast =
     (case forecast ''forecast_df'' of Some (PFrame rows) \<Rightarrow> Some rows | _ \<Rightarrow> None)"

text \<open>
  The specification's forecast result: exactly 60 rows (the horizon), dates strictly
  increasing.
\<close>

definition valid_forecast :: "pydict \<Rightarrow> bool" where
  "valid_forecast forecast =
     (case forecast_rows forecast of
        None \<Rightarrow> False
      | Some rows \<Rightarrow> length rows = 60 \<and> sorted_wrt (<) (map fst rows))"

text \<open>
  The specification's fallback of stage 4, in its own words: the stage 3 score perturbed
  by a random walk across the horizon. Stage 6 of the source builds such a walk (the
  running sum of the draws, scaled, added to the score); this is the same construction
  with the scale 5 and the horizon 60 of stage 4.
\<close>

definition spec_random_walk :: "real \<Rightarrow> (nat \<Rightarrow> real) \<Rightarrow> real list" where
  "spec_random_walk score samples = map (\<lambda>c. score + c * 5) (cumsum (draw samples 60))"

definition numeric :: "pyval \<Rightarrow> bool" where
  "numeric v = (case v of PInt i \<Rightarrow> True | PFloat x \<Rightarrow> True | _ \<Rightarrow> False)"

definition has_score :: "pydict \<Rightarrow> bool" where
  "has_score wqi = (case wqi ''wqi_score'' of None \<Rightarrow> False | Some v \<Rightarrow> numeric v)"

text \<open>The number under \<^verbatim>\<open>'wqi_score'\<close>, when there is one.\<close>

definition score_value :: "pydict \<Rightarrow> real option" where
  "score_value wqi =
     (case wqi ''wqi_score'' of
        Some (PInt i) \<Rightarrow> Some (real_of_int i)
      | Some (PFloat s) \<Rightarrow> Some s
      | _ \<Rightarrow> None)"

text \<open>A collaborator fails on an input: it is missing, or it raises there.\<close>

definition fails :: "'a collaborator \<Rightarrow> 'a \<Rightarrow> bool" where
  "fails c x =
     (case c of
        Missing e \<Rightarrow> True
      | Loaded f \<Rightarrow> (case f x of Inl e \<Rightarrow> True | Inr d \<Rightarrow> False))"

definition all_stages :: "string list" where
  "all_stages = [''detection'', ''polymer'', ''wqi'', ''forecast'', ''physics'', ''simulation'']"

subsection \<open>Example inputs\<close>

text \<open>The default values of the number inputs, with a file uploaded.\<close>

definition default_submission :: submission where
  "default_submission =
     \<lparr>uploaded = Some ''sample.jpg'', temperature = 25.0, ph = 7.0, turbidity = 25.0,
      dissolved_oxygen = 7.5, conductivity = 450.0, bod = 10.0, cod = 35.0, tds = 300.0,
      nitrate = 8.5, phosphate = 2.1, chloride = 85.0, fecal_coliform = 150\<rparr>"

definition env_zero :: run_env where
  "env_zero = \<lparr>now = 0, rand_spectrum = (\<lambda>k. 0), randn_forecast = (\<lambda>k. 0),
                randn_twin = (\<lambda>k. 0)\<rparr>"

definition env_one :: run_env where
  "env_one = \<lparr>now = 0, rand_spectrum = (\<lambda>k. 0), randn_forecast = (\<lambda>k. 1),
               randn_twin = (\<lambda>k. 1)\<rparr>"

definition no_models :: py_exn where
  "no_models = ImportError ''No module named models''"

text \<open>No model is installed: every import raises.\<close>

definition cs_unavailable :: collaborators where
  "cs_unavailable =
     \<lparr>predict_image_with_viz = Missing no_models, predict_polymer = Missing no_models,
      predict_wqi = Missing no_models, forecast_wqi = Missing no_models,
      predict_dissolved_oxygen = Missing no_models,
      run_digital_twin_simulation = Missing no_models\<rparr>"

text \<open>
  The index model reports its own failure the way the detector does for the citizen view
  (views/citizen.py, lines 83 and 295): it returns a dictionary with the key
  \<^verbatim>\<open>'error'\<close> and no score. The detector works.
\<close>

definition cs_score_missing :: collaborators where
  "cs_score_missing =
     cs_unavailable
       \<lparr>predict_image_with_viz :=
          Loaded (\<lambda>x. Inr [''count'' \<mapsto> PInt 5,
                            ''particle_types'' \<mapsto> PCounts [(''fiber'', 5)]]),
        predict_wqi := Loaded (\<lambda>features. Inr [''error'' \<mapsto> PStr ''model file not found''])\<rparr>"

text \<open>The same index model, and a detector that raises.\<close>

definition cs_detector_raises :: collaborators where
  "cs_detector_raises =
     cs_unavailable
       \<lparr>predict_image_with_viz := Loaded (\<lambda>x. Inl (RuntimeError ''weights not found'')),
        predict_wqi := Loaded (\<lambda>features. Inr [''error'' \<mapsto> PStr ''model file not found''])\<rparr>"

text \<open>A forecaster that returns a frame of one row.\<close>

definition cs_short_forecast :: collaborators where
  "cs_short_forecast =
     cs_unavailable
       \<lparr>forecast_wqi := Loaded (\<lambda>score. Inr [''forecast_df'' \<mapsto> PFrame [(0, 50)]])\<rparr>"

text \<open>
  An index model that works, and a physics model that returns its predictions without the
  key \<^verbatim>\<open>'critical_hours'\<close>.
\<close>

definition cs_plain_pinn :: collaborators where
  "cs_plain_pinn =
     cs_unavailable
       \<lparr>predict_wqi :=
          Loaded (\<lambda>features. Inr [''wqi_score'' \<mapsto> PFloat 60,
                                   ''classification'' \<mapsto> PStr ''Moderate'']),
        predict_dissolved_oxygen :=
          Loaded (\<lambda>x. Inr [''time_hours'' \<mapsto> PArray [0, 1],
                            ''do_predictions'' \<mapsto> PArray [3, 5],
                            ''mean_do'' \<mapsto> PFloat 4])\<rparr>"

text \<open>
  A physics model whose predictions stay above 4.0 and whose \<^verbatim>\<open>'critical_hours'\<close>
  names two time points all the same.
\<close>

definition cs_alarm_pinn :: collaborators where
  "cs_alarm_pinn =
     cs_unavailable
       \<lparr>predict_wqi :=
          Loaded (\<lambda>features. Inr [''wqi_score'' \<mapsto> PFloat 60,
                                   ''classification'' \<mapsto> PStr ''Moderate'']),
        predict_dissolved_oxygen :=
          Loaded (\<lambda>x. Inr [''time_hours'' \<mapsto> PArray [0, 1],
                            ''do_predictions'' \<mapsto> PArray [5, 6],
                            ''mean_do'' \<mapsto> PFloat 5.5,
                            ''critical_hours'' \<mapsto> PArray [0, 1]])\<rparr>"

section \<open>Properties\<close>

subsection \<open>Which steps return\<close>

text \<open>
  Steps 1, 2, 3 and 5 always return a result. Steps 4 and 6 return one when the index
  result carries a numeric score; their handlers read the score again.
\<close>

lemma step1_returns: "\<exists>d. step1 cs img = Inr d"
  by (simp add: step1_def try_except_def split: sum.splits)

lemma step2_returns: "\<exists>d. step2 cs env = Inr d"
  by (simp add: step2_def try_except_def split: sum.splits)

lemma step3_returns: "\<exists>wqi feats. step3 cs sub = Inr (wqi, feats)"
  by (simp add: step3_def split: collaborator.splits sum.splits)

lemma step5_returns: "\<exists>d. step5 cs sub feats = Inr d"
  by (simp add: step5_def try_except_def split: sum.splits)

lemma np_add_numeric: "numeric v \<Longrightarrow> \<exists>ys. np_add v arr = Inr ys \<and> length ys = length arr"
  by (cases v) (auto simp: numeric_def)

lemma subscript_has_score:
  "has_score wqi \<Longrightarrow> \<exists>v. subscript wqi ''wqi_score'' = Inr v \<and> numeric v"
  by (auto simp: has_score_def subscript_def split: option.splits)

lemma mock_forecast_numeric:
  assumes "numeric v"
  shows "\<exists>df. mock_forecast start samples v = Inr df \<and> length df = 60 \<and>
           map fst df = date_range start 60"
proof -
  from np_add_numeric [OF assms, of "map (\<lambda>z. z * 5) (draw samples 60)"]
  obtain ys where ys: "np_add v (map (\<lambda>z. z * 5) (draw samples 60)) = Inr ys"
    and len: "length ys = 60"
    by (auto simp: draw_def)
  show ?thesis
    using ys len by (simp add: mock_forecast_def then_do_def date_range_def)
qed

lemma step4_returns:
  assumes "has_score wqi"
  shows "\<exists>d. step4 cs env wqi = Inr d"
proof -
  from subscript_has_score [OF assms] obtain v
    where v: "subscript wqi ''wqi_score'' = Inr v" and n: "numeric v" by blast
  from mock_forecast_numeric [OF n] obtain df
    where "mock_forecast (now env) (randn_forecast env) v = Inr df" by blast
  with v show ?thesis
    by (simp add: step4_def try_except_def then_do_def split: sum.splits)
qed

lemma twin_fallback_numeric:
  assumes "numeric v"
  shows "\<exists>d. twin_fallback samples v e = Inr d \<and> d ''error'' = Some (PStr (str_exn e))"
proof -
  from np_add_numeric [OF assms] obtain ys
    where "np_add v (map (\<lambda>c. c * 2) (cumsum (draw samples 30))) = Inr ys" by blast
  then show ?thesis
    by (simp add: twin_fallback_def then_do_def)
qed

lemma step6_returns:
  assumes "has_score wqi"
  shows "\<exists>d. step6 cs env yolo wqi = Inr d"
proof -
  from subscript_has_score [OF assms] obtain v
    where v: "subscript wqi ''wqi_score'' = Inr v" and n: "numeric v" by blast
  from twin_fallback_numeric [OF n] v show ?thesis
    by (simp add: step6_def try_except_def then_do_def split: sum.splits) blast
qed

lemma run_pipeline_steps:
  "run_pipeline cs env img sub = Inr r \<longleftrightarrow>
     (\<exists>feats. step1 cs img = Inr (yolo_result r) \<and> step2 cs env = Inr (raman_result r) \<and>
        step3 cs sub = Inr (wqi_result r, feats) \<and>
        step4 cs env (wqi_result r) = Inr (forecast_result r) \<and>
        step5 cs sub feats = Inr (pinn_result r) \<and>
        step6 cs env (yolo_result r) (wqi_result r) = Inr (twin_result r))"
  by (cases r) (auto simp: run_pipeline_def then_do_def split: sum.splits)

subsection \<open>The claims\<close>

text \<open>
  C3. The particle-count risk level is a function of the particle count alone: every count
  above 100 is "High" (the impact box says SEVERE), every count from 51 to 100 is
  "Moderate", every count of at most 50 is "Low"; 150 gives "High", 75 "Moderate" and
  20 "Low".
\<close>

theorem risk_level_thresholds:
  "(particle_count > 100 \<longrightarrow>
      risk_level particle_count = ''High'' \<and> impact_risk particle_count = ''SEVERE'') \<and>
   (51 \<le> particle_count \<and> particle_count \<le> 100 \<longrightarrow>
      risk_level particle_count = ''Moderate'' \<and> impact_risk particle_count = ''MODERATE'') \<and>
   (particle_count \<le> 50 \<longrightarrow>
      risk_level particle_count = ''Low'' \<and> impact_risk particle_count = ''LOW'') \<and>
   risk_level 150 = ''High'' \<and> risk_level 75 = ''Moderate'' \<and> risk_level 20 = ''Low''"
  by (simp add: risk_level_def impact_risk_def)

theorem risk_level_thresholds_witness:
  "(101::int) > 100 \<and> risk_level 101 = ''High'' \<and> impact_risk 101 = ''SEVERE'' \<and>
   (51::int) \<le> 51 \<and> (51::int) \<le> 100 \<and> risk_level 51 = ''Moderate'' \<and>
   (50::int) \<le> 50 \<and> risk_level 50 = ''Low'' \<and> impact_risk 50 = ''LOW''"
  using risk_level_thresholds [of 101] risk_level_thresholds [of 51]
    risk_level_thresholds [of 50]
  by simp

text \<open>
  C4. The colour band of the index score is a function of the score alone: above 75 it is
  green (good), above 50 and at most 75 amber (moderate), at most 50 red (poor).
\<close>

theorem wqi_color_bands:
  "(wqi_score > 75 \<longrightarrow> wqi_color wqi_score = ''#2ecc71'') \<and>
   (50 < wqi_score \<and> wqi_score \<le> 75 \<longrightarrow> wqi_color wqi_score = ''#f39c12'') \<and>
   (wqi_score \<le> 50 \<longrightarrow> wqi_color wqi_score = ''#e74c3c'')"
  by (simp add: wqi_color_def)

theorem wqi_color_bands_witness:
  "(75.1::real) > 75 \<and> wqi_color 75.1 = ''#2ecc71'' \<and>
   (50::real) < 52.3 \<and> (52.3::real) \<le> 75 \<and> wqi_color 52.3 = ''#f39c12'' \<and>
   (50::real) \<le> 50 \<and> wqi_color 50 = ''#e74c3c''"
  using wqi_color_bands [of "75.1"] wqi_color_bands [of "52.3"] wqi_color_bands [of 50]
  by simp



text \<open>
  Support for C10: on any string the chain has three outcomes, and the first test wins.
\<close>

lemma confidence_cases:
  "confidence role =
     (if str_contains ''Public'' role then 0.50
      else if str_contains ''Government'' role then 0.35 else 0.10)"
  by (simp add: confidence_def)

text \<open>
  C10. The confidence threshold is a function of the selected role alone. For each of the
  four roles the radio widget offers: a role containing "Public" gives 0.50, a role
  containing "Government" gives 0.35, and the Researcher and Admin roles give 0.10.
\<close>

theorem confidence_of_role:
  "\<forall>role \<in> set role_options.
     (str_contains ''Public'' role \<longrightarrow> confidence role = 0.50) \<and>
     (str_contains ''Government'' role \<longrightarrow> confidence role = 0.35) \<and>
     (role = role_researcher \<or> role = role_admin \<longrightarrow> confidence role = 0.10)"
  by (simp add: role_options_def role_public_def role_government_def role_researcher_def
      role_admin_def confidence_def)

theorem confidence_of_role_witness:
  "role_public \<in> set role_options \<and> str_contains ''Public'' role_public \<and>
   confidence role_public = 0.50 \<and>
   role_government \<in> set role_options \<and> str_contains ''Government'' role_government \<and>
   confidence role_government = 0.35 \<and>
   role_researcher \<in> set role_options \<and> confidence role_researcher = 0.10 \<and>
   role_admin \<in> set role_options \<and> confidence role_admin = 0.10"
proof -
  have m: "role_public \<in> set role_options" "role_government \<in> set role_options"
    "role_researcher \<in> set role_options" "role_admin \<in> set role_options"
    by (simp_all add: role_options_def)
  have p: "str_contains ''Public'' role_public"
    by (simp add: role_public_def)
  have g: "str_contains ''Government'' role_government"
    by (simp add: role_government_def)
  from confidence_of_role m p g show ?thesis
    by blast
qed

text \<open>
  Support for C1 and C2: when the index model, whenever it returns, returns a numeric
  score, the run returns a report, whatever the other collaborators do.
\<close>

lemma run_completes_with_score:
  assumes "\<And>f d. predict_wqi cs = Loaded f \<Longrightarrow> f (wqi_features_of sub) = Inr d \<Longrightarrow> has_score d"
  shows "\<exists>r. run_pipeline cs env img sub = Inr r"
proof -
  obtain yolo where s1: "step1 cs img = Inr yolo" using step1_returns by blast
  obtain raman where s2: "step2 cs env = Inr raman" using step2_returns by blast
  obtain wqi feats where s3: "step3 cs sub = Inr (wqi, feats)" using step3_returns by blast
  have hs: "has_score wqi"
    using s3 assms
    by (auto simp: step3_def wqi_fallback_def has_score_def numeric_def
        split: collaborator.splits sum.splits)
  obtain fc where s4: "step4 cs env wqi = Inr fc" using step4_returns [OF hs] by blast
  obtain pinn where s5: "step5 cs sub feats = Inr pinn" using step5_returns by blast
  obtain twin where s6: "step6 cs env yolo wqi = Inr twin" using step6_returns [OF hs] by blast
  show ?thesis
    using s1 s2 s3 s4 s5 s6 by (simp add: run_pipeline_def then_do_def)
qed

text \<open>
  Support for C2: when the detector fails, step 1 returns the count 0, an empty type map
  and the reason under the key \<^verbatim>\<open>'error'\<close>.
\<close>

lemma detector_failure_fallback:
  assumes "fails (predict_image_with_viz cs) (img, 0.35, ''Government'')"
  shows "\<exists>e. step1 cs img =
     Inr [''count'' \<mapsto> PInt 0, ''particle_types'' \<mapsto> PCounts [],
          ''error'' \<mapsto> PStr (str_exn e)]"
  using assms
  by (auto simp: fails_def step1_def attempt1_def try_except_def
      split: collaborator.splits sum.splits)

text \<open>
  C1. The claim: with an uploaded image the run catches every exception of a stage and
  always ends with a report of six stage values. The code at an input where it does not:
  the index model returns a dictionary without the key \<^verbatim>\<open>'wqi_score'\<close>, the handler
  of step 4 (line 164) subscripts it outside any \<^verbatim>\<open>try\<close>, and the
  \<^verbatim>\<open>KeyError\<close> leaves the run.
\<close>

theorem run_raises_when_score_missing:
  "on_run_button cs_score_missing env_zero default_submission =
     Some (Inl (KeyError ''wqi_score''))"
  by (simp add: on_run_button_def default_submission_def run_pipeline_def cs_score_missing_def
      cs_unavailable_def step1_def attempt1_def step2_def attempt2_def step3_def step4_def
      attempt4_def then_do_def try_except_def subscript_def)

text \<open>
  C2. The claim: when the detector throws, the detection result has count 0 and an empty
  type map, the reason is recorded, and the five later stages still run to completion.
  The code at an input where the detector raises: step 1 builds that fallback, and the run
  then ends in step 4 with the \<^verbatim>\<open>KeyError\<close> of C1, so steps 5 and 6 never run.
\<close>

theorem detector_raises_run_aborts:
  "step1 cs_detector_raises ''sample.jpg'' =
     Inr [''count'' \<mapsto> PInt 0, ''particle_types'' \<mapsto> PCounts [],
          ''error'' \<mapsto> PStr ''weights not found''] \<and>
   run_pipeline cs_detector_raises env_zero ''sample.jpg'' default_submission =
     Inl (KeyError ''wqi_score'')"
  by (simp add: run_pipeline_def cs_detector_raises_def
      cs_unavailable_def step1_def attempt1_def step2_def attempt2_def step3_def step4_def
      attempt4_def then_do_def try_except_def subscript_def)

text \<open>
  Support for C7, C8 and C9: the fallback path of step 4 on a numeric score, and the dates
  of a date range.
\<close>

lemma mock_forecast_float:
  "mock_forecast start samples (PFloat s) =
     Inr (map (\<lambda>k. (start + int k * microseconds_per_day, s + samples k * 5)) [0..<60])"
  by (simp add: mock_forecast_def then_do_def date_range_def draw_def zip_map_map
      zip_same_conv_map del: upt_rec_numeral)

lemma date_range_increasing: "sorted_wrt (<) (date_range start n)"
proof -
  have "sorted_wrt
      (\<lambda>j k. start + int j * microseconds_per_day < start + int k * microseconds_per_day)
      [0..<n]"
    by (rule sorted_wrt_mono_rel [OF _ sorted_wrt_upt [of 0 n]])
      (simp add: microseconds_per_day_def)
  then show ?thesis
    by (simp add: date_range_def sorted_wrt_map)
qed

lemma step4_fallback_valid:
  assumes "attempt4 cs wqi = Inl e" and "step4 cs env wqi = Inr d"
  shows "valid_forecast d \<and> d ''error'' = Some (PStr (str_exn e))"
proof -
  from assms obtain v df where v: "subscript wqi ''wqi_score'' = Inr v"
    and df: "mock_forecast (now env) (randn_forecast env) v = Inr df"
    and d: "d = [''forecast_df'' \<mapsto> PFrame df, ''error'' \<mapsto> PStr (str_exn e)]"
    by (auto simp: step4_def try_except_def then_do_def split: sum.splits)
  from df obtain ys
    where ys: "np_add v (map (\<lambda>z. z * 5) (draw (randn_forecast env) 60)) = Inr ys"
    and dfz: "df = zip (date_range (now env) 60) ys"
    by (auto simp: mock_forecast_def then_do_def split: sum.splits)
  have len: "length ys = 60"
    using ys by (cases v) (auto simp: draw_def split: if_splits)
  have "map fst df = date_range (now env) 60"
    using dfz len by (simp add: date_range_def)
  moreover have "length df = 60"
    using dfz len by (simp add: date_range_def)
  ultimately show ?thesis
    using d date_range_increasing [of "now env" 60]
    by (simp add: valid_forecast_def forecast_rows_def)
qed

lemma run_unavailable: "\<exists>r. run_pipeline cs_unavailable env img sub = Inr r"
  by (rule run_completes_with_score) (simp add: cs_unavailable_def)

text \<open>
  C7. The claim: every forecast result of the pipeline has exactly 60 entries with strictly
  increasing dates. It fails where the forecaster succeeds: the run stores whatever the
  forecaster returns, here a frame of one row.
\<close>

theorem forecast_counterexample:
  "(case run_pipeline cs_short_forecast env_zero ''sample.jpg'' default_submission of
      Inl e \<Rightarrow> False
    | Inr r \<Rightarrow> forecast_rows (forecast_result r) = Some [(0, 50)] \<and>
              \<not> valid_forecast (forecast_result r))"
  by (simp add: run_pipeline_def cs_short_forecast_def cs_unavailable_def step1_def attempt1_def
      step2_def attempt2_def step3_def wqi_fallback_def step4_def attempt4_def step5_def
      attempt5_def step6_def attempt6_def twin_fallback_def then_do_def try_except_def
      subscript_def valid_forecast_def forecast_rows_def)

text \<open>
  C7, amended. In every report of a run: when the attempt of step 4 fails, the forecast is
  the fallback, 60 rows with strictly increasing dates; when it succeeds, the forecast is
  the forecaster's own result, unchanged.
\<close>

theorem forecast_result_shape:
  assumes "run_pipeline cs env img sub = Inr r"
  shows "(case attempt4 cs (wqi_result r) of
            Inl e \<Rightarrow> valid_forecast (forecast_result r)
          | Inr d \<Rightarrow> forecast_result r = d)"
proof (cases "attempt4 cs (wqi_result r)")
  case (Inl e)
  from assms have "step4 cs env (wqi_result r) = Inr (forecast_result r)"
    by (auto simp: run_pipeline_steps)
  with Inl step4_fallback_valid show ?thesis by simp
next
  case (Inr d)
  from assms have "step4 cs env (wqi_result r) = Inr (forecast_result r)"
    by (auto simp: run_pipeline_steps)
  with Inr show ?thesis by (simp add: step4_def try_except_def)
qed

theorem forecast_result_shape_witness:
  "(\<exists>r. run_pipeline cs_unavailable env_zero ''sample.jpg'' default_submission = Inr r \<and>
       attempt4 cs_unavailable (wqi_result r) = Inl no_models \<and>
       valid_forecast (forecast_result r)) \<and>
   (\<exists>r. run_pipeline cs_short_forecast env_zero ''sample.jpg'' default_submission = Inr r \<and>
       attempt4 cs_short_forecast (wqi_result r) = Inr [''forecast_df'' \<mapsto> PFrame [(0, 50)]] \<and>
       forecast_result r = [''forecast_df'' \<mapsto> PFrame [(0, 50)]])"
proof
  obtain r
    where r: "run_pipeline cs_unavailable env_zero ''sample.jpg'' default_submission = Inr r"
    using run_unavailable by blast
  have a: "attempt4 cs_unavailable (wqi_result r) = Inl no_models"
    by (simp add: attempt4_def cs_unavailable_def)
  from forecast_result_shape [OF r] a have "valid_forecast (forecast_result r)" by simp
  with r a show "\<exists>r. run_pipeline cs_unavailable env_zero ''sample.jpg'' default_submission = Inr r \<and>
       attempt4 cs_unavailable (wqi_result r) = Inl no_models \<and>
       valid_forecast (forecast_result r)" by blast
next
  have "\<exists>r. run_pipeline cs_short_forecast env_zero ''sample.jpg'' default_submission = Inr r"
    by (rule run_completes_with_score) (simp add: cs_short_forecast_def cs_unavailable_def)
  then obtain r
    where r: "run_pipeline cs_short_forecast env_zero ''sample.jpg'' default_submission = Inr r"
    by blast
  then have "wqi_result r = wqi_fallback no_models"
    by (auto simp: run_pipeline_steps step3_def cs_short_forecast_def cs_unavailable_def)
  then have a: "attempt4 cs_short_forecast (wqi_result r) = Inr [''forecast_df'' \<mapsto> PFrame [(0, 50)]]"
    by (simp add: attempt4_def cs_short_forecast_def cs_unavailable_def wqi_fallback_def
        subscript_def then_do_def)
  from forecast_result_shape [OF r] a
  have "forecast_result r = [''forecast_df'' \<mapsto> PFrame [(0, 50)]]" by simp
  with r a show "\<exists>r. run_pipeline cs_short_forecast env_zero ''sample.jpg'' default_submission = Inr r \<and>
       attempt4 cs_short_forecast (wqi_result r) = Inr [''forecast_df'' \<mapsto> PFrame [(0, 50)]] \<and>
       forecast_result r = [''forecast_df'' \<mapsto> PFrame [(0, 50)]]" by blast
qed

text \<open>
  Support for C9: when a collaborator fails on every input, the attempt of its step fails.
\<close>

lemma fails_Loaded: "fails (Loaded f) x \<Longrightarrow> \<exists>e. f x = Inl e"
  by (cases "f x") (simp_all add: fails_def)

lemma attempt1_fails:
  assumes "\<And>x. fails (predict_image_with_viz cs) x"
  shows "\<exists>e. attempt1 cs img = Inl e"
proof (cases "predict_image_with_viz cs")
  case (Missing e)
  then show ?thesis by (simp add: attempt1_def)
next
  case (Loaded f)
  with assms [of "(img, 0.35, ''Government'')"] fails_Loaded show ?thesis
    by (simp add: attempt1_def)
qed

lemma attempt2_fails:
  assumes "\<And>x. fails (predict_polymer cs) x"
  shows "\<exists>e. attempt2 cs env = Inl e"
proof (cases "predict_polymer cs")
  case (Missing e)
  then show ?thesis by (simp add: attempt2_def)
next
  case (Loaded f)
  with assms [of "draw (rand_spectrum env) 1024"] fails_Loaded show ?thesis
    by (simp add: attempt2_def)
qed

lemma step3_fails:
  assumes "\<And>x. fails (predict_wqi cs) x"
  shows "\<exists>e feats. step3 cs sub = Inr (wqi_fallback e, feats)"
proof (cases "predict_wqi cs")
  case (Missing e)
  then have "step3 cs sub = Inr (wqi_fallback e, None)" by (simp add: step3_def)
  then show ?thesis by blast
next
  case (Loaded f)
  from assms [of "wqi_features_of sub"] Loaded fails_Loaded
  obtain e where "f (wqi_features_of sub) = Inl e" by metis
  with Loaded have "step3 cs sub = Inr (wqi_fallback e, Some (wqi_features_of sub))"
    by (simp add: step3_def)
  then show ?thesis by blast
qed

lemma attempt4_fails:
  assumes "\<And>x. fails (forecast_wqi cs) x"
  shows "\<exists>e. attempt4 cs wqi = Inl e"
proof (cases "forecast_wqi cs")
  case (Missing e)
  then show ?thesis by (simp add: attempt4_def)
next
  case (Loaded f)
  show ?thesis
  proof (cases "subscript wqi ''wqi_score''")
    case (Inl e)
    with Loaded show ?thesis by (simp add: attempt4_def then_do_def)
  next
    case (Inr v)
    from assms [of v] Loaded fails_Loaded obtain e where "f v = Inl e" by metis
    with Loaded Inr show ?thesis by (simp add: attempt4_def then_do_def)
  qed
qed

lemma attempt5_fails:
  assumes "\<And>x. fails (predict_dissolved_oxygen cs) x"
  shows "\<exists>e. attempt5 cs feats = Inl e"
proof (cases "predict_dissolved_oxygen cs")
  case (Missing e)
  then show ?thesis by (simp add: attempt5_def)
next
  case (Loaded f)
  show ?thesis
  proof (cases feats)
    case None
    with Loaded show ?thesis by (simp add: attempt5_def)
  next
    case (Some features)
    from assms [of "(features, 72)"] Loaded fails_Loaded
    obtain e where "f (features, 72) = Inl e" by metis
    with Loaded Some show ?thesis by (simp add: attempt5_def)
  qed
qed

lemma attempt6_fails:
  assumes "\<And>x. fails (run_digital_twin_simulation cs) x"
  shows "\<exists>e. attempt6 cs yolo wqi = Inl e"
proof (cases "run_digital_twin_simulation cs")
  case (Missing e)
  then show ?thesis by (simp add: attempt6_def)
next
  case (Loaded f)
  show ?thesis
  proof (cases "py_times_10 (dict_get yolo ''count'' (PInt 0))")
    case (Inl e)
    with Loaded show ?thesis by (simp add: attempt6_def then_do_def)
  next
    case load: (Inr pollution_load)
    show ?thesis
    proof (cases "subscript wqi ''wqi_score''")
      case (Inl e)
      with Loaded load show ?thesis by (simp add: attempt6_def then_do_def)
    next
      case (Inr v)
      from assms Loaded fails_Loaded
      have "\<And>x. \<exists>e. f x = Inl e" by metis
      with Loaded load Inr show ?thesis by (simp add: attempt6_def then_do_def)
    qed
  qed
qed

text \<open>
  With every collaborator failing, the run returns a report and every stage is degraded.
\<close>

lemma all_fail_run:
  assumes "\<And>x. fails (predict_image_with_viz cs) x"
    and "\<And>x. fails (predict_polymer cs) x"
    and "\<And>x. fails (predict_wqi cs) x"
    and "\<And>x. fails (forecast_wqi cs) x"
    and "\<And>x. fails (predict_dissolved_oxygen cs) x"
    and "\<And>x. fails (run_digital_twin_simulation cs) x"
  shows "\<exists>r. run_pipeline cs env img sub = Inr r \<and> degraded_stages r = all_stages"
proof -
  obtain e1 where a1: "attempt1 cs img = Inl e1" using attempt1_fails assms(1) by blast
  obtain e2 where a2: "attempt2 cs env = Inl e2" using attempt2_fails assms(2) by blast
  obtain e3 feats where s3: "step3 cs sub = Inr (wqi_fallback e3, feats)"
    using step3_fails assms(3) by blast
  obtain e4 where a4: "attempt4 cs (wqi_fallback e3) = Inl e4" using attempt4_fails assms(4) by blast
  obtain e5 where a5: "attempt5 cs feats = Inl e5" using attempt5_fails assms(5) by blast
  obtain yolo where y: "step1 cs img = Inr yolo" and yd: "degraded yolo"
    using a1 by (simp add: step1_def try_except_def degraded_def)
  obtain raman where rm: "step2 cs env = Inr raman" and rd: "degraded raman"
    using a2 by (simp add: step2_def try_except_def degraded_def)
  have wd: "degraded (wqi_fallback e3)"
    by (simp add: wqi_fallback_def degraded_def)
  obtain fc where f: "step4 cs env (wqi_fallback e3) = Inr fc" and fd: "degraded fc"
    using a4 by (simp add: step4_def try_except_def degraded_def wqi_fallback_def subscript_def
        then_do_def mock_forecast_float)
  obtain pinn where p: "step5 cs sub feats = Inr pinn" and pd: "degraded pinn"
    using a5 by (simp add: step5_def try_except_def degraded_def pinn_fallback_def Let_def)
  obtain e6 where a6: "attempt6 cs yolo (wqi_fallback e3) = Inl e6"
    using attempt6_fails assms(6) by blast
  obtain twin where t: "step6 cs env yolo (wqi_fallback e3) = Inr twin" and td: "degraded twin"
    using a6 by (simp add: step6_def try_except_def degraded_def wqi_fallback_def subscript_def
        then_do_def twin_fallback_def)
  show ?thesis
    using y rm s3 f p t yd rd wd fd pd td
    by (simp add: run_pipeline_def then_do_def degraded_stages_def all_stages_def)
qed

lemma failing_forecast_rows:
  assumes "\<And>x. fails (forecast_wqi cs) x"
    and "step4 cs env (wqi_fallback e) = Inr d"
  shows "forecast_rows d =
     Some (map (\<lambda>k. (now env + int k * microseconds_per_day, 52.3 + randn_forecast env k * 5))
       [0..<60])"
proof -
  obtain e4 where "attempt4 cs (wqi_fallback e) = Inl e4"
    using attempt4_fails assms(1) by blast
  with assms(2) show ?thesis
    by (auto simp: step4_def try_except_def wqi_fallback_def subscript_def then_do_def
        mock_forecast_float forecast_rows_def)
qed

text \<open>
  C9. For a fixed submission and a set of collaborators that always fail, two runs (with
  any two environments: clock and random draws) both return a report, and the degraded
  stages are the same in both, all six. The fallback values may differ: with draws 0 in
  one run and 1 in the other the two forecasts differ.
\<close>

theorem failing_runs_same_tags:
  assumes "\<And>x. fails (predict_image_with_viz cs) x"
    and "\<And>x. fails (predict_polymer cs) x"
    and "\<And>x. fails (predict_wqi cs) x"
    and "\<And>x. fails (forecast_wqi cs) x"
    and "\<And>x. fails (predict_dissolved_oxygen cs) x"
    and "\<And>x. fails (run_digital_twin_simulation cs) x"
  shows "(\<exists>r1 r2. run_pipeline cs env1 img sub = Inr r1 \<and> run_pipeline cs env2 img sub = Inr r2 \<and>
            degraded_stages r1 = all_stages \<and> degraded_stages r2 = degraded_stages r1) \<and>
         (\<exists>r1 r2. run_pipeline cs env_zero img sub = Inr r1 \<and>
            run_pipeline cs env_one img sub = Inr r2 \<and>
            forecast_result r1 \<noteq> forecast_result r2)"
proof
  from all_fail_run [OF assms, of env1 img sub] all_fail_run [OF assms, of env2 img sub]
  show "\<exists>r1 r2. run_pipeline cs env1 img sub = Inr r1 \<and> run_pipeline cs env2 img sub = Inr r2 \<and>
            degraded_stages r1 = all_stages \<and> degraded_stages r2 = degraded_stages r1"
    by auto
next
  obtain r1 where r1: "run_pipeline cs env_zero img sub = Inr r1"
    using all_fail_run [OF assms] by blast
  obtain r2 where r2: "run_pipeline cs env_one img sub = Inr r2"
    using all_fail_run [OF assms] by blast
  obtain e feats where s3: "step3 cs sub = Inr (wqi_fallback e, feats)"
    using step3_fails assms(3) by blast
  from r1 s3 have w1: "step4 cs env_zero (wqi_fallback e) = Inr (forecast_result r1)"
    by (auto simp: run_pipeline_steps)
  from r2 s3 have w2: "step4 cs env_one (wqi_fallback e) = Inr (forecast_result r2)"
    by (auto simp: run_pipeline_steps)
  have "forecast_rows (forecast_result r1) \<noteq> forecast_rows (forecast_result r2)"
  proof
    assume "forecast_rows (forecast_result r1) = forecast_rows (forecast_result r2)"
    then have "\<forall>k \<in> set [0..<60]. (52.3::real) + randn_forecast env_zero k * 5 =
        52.3 + randn_forecast env_one k * 5"
      unfolding failing_forecast_rows [OF assms(4) w1] failing_forecast_rows [OF assms(4) w2]
      by (simp del: upt_rec_numeral)
    then have "(52.3::real) + randn_forecast env_zero 0 * 5 = 52.3 + randn_forecast env_one 0 * 5"
      by simp
    then show False by (simp add: env_zero_def env_one_def)
  qed
  then have "forecast_result r1 \<noteq> forecast_result r2" by auto
  with r1 r2 show "\<exists>r1 r2. run_pipeline cs env_zero img sub = Inr r1 \<and>
            run_pipeline cs env_one img sub = Inr r2 \<and>
            forecast_result r1 \<noteq> forecast_result r2" by blast
qed

theorem failing_runs_same_tags_witness:
  "(\<exists>r1 r2. run_pipeline cs_unavailable env_zero ''sample.jpg'' default_submission = Inr r1 \<and>
      run_pipeline cs_unavailable env_one ''sample.jpg'' default_submission = Inr r2 \<and>
      degraded_stages r1 = all_stages \<and> degraded_stages r2 = degraded_stages r1) \<and>
   (\<exists>r1 r2. run_pipeline cs_unavailable env_zero ''sample.jpg'' default_submission = Inr r1 \<and>
      run_pipeline cs_unavailable env_one ''sample.jpg'' default_submission = Inr r2 \<and>
      forecast_result r1 \<noteq> forecast_result r2)"
  by (rule failing_runs_same_tags) (simp_all add: cs_unavailable_def fails_def)

text \<open>
  Support for C5: the mask keeps one time point for each prediction below the level, so
  the fallback of step 5 reports what the specification's rule gives for its predictions.
\<close>

lemma mask_below_length:
  "length ts = length ds \<Longrightarrow>
     length (mask_below ts ds level) = length (filter (\<lambda>d. d < level) ds)"
  unfolding mask_below_def
  by (induction ts ds rule: list_induct2) simp_all

lemma pinn_fallback_status:
  "do_status (pinn_fallback level e) =
     Inr (spec_do_status (do_predictions_of (pinn_fallback level e)))"
proof -
  have "length (linspace 0 72 100) = length (mock_do_pred level (linspace 0 72 100))"
    by (simp add: mock_do_pred_def)
  from mask_below_length [OF this, of 4]
  show ?thesis
    by (simp add: do_status_def pinn_fallback_def Let_def dict_get_def then_do_def
        spec_do_status_def do_predictions_of_def)
qed

lemma spec_do_status_alert:
  "spec_do_status predictions =
     (if \<exists>d \<in> set predictions. d < 4.0
      then Alert (length (filter (\<lambda>d. d < 4.0) predictions)) else Safe)"
  by (auto simp: spec_do_status_def Let_def filter_empty_conv)

text \<open>
  C5. The claim: the reported count of critical points is the number of predictions below
  4.0, and the alert is raised exactly when there is one. It fails where the physics model
  succeeds: the report shows the length of the model's own \<^verbatim>\<open>'critical_hours'\<close>
  (an empty list when the key is absent) and never looks at the predictions. Here the
  predictions are 3 and 5, the key is absent, and the report says safe.
\<close>

theorem do_alert_counterexample:
  "(case run_pipeline cs_plain_pinn env_zero ''sample.jpg'' default_submission of
      Inl e \<Rightarrow> False
    | Inr r \<Rightarrow> do_predictions_of (pinn_result r) = [3, 5] \<and>
              do_status (pinn_result r) = Inr Safe \<and>
              spec_do_status (do_predictions_of (pinn_result r)) = Alert 1)"
  by (simp add: run_pipeline_def cs_plain_pinn_def cs_unavailable_def step1_def attempt1_def
      step2_def attempt2_def step3_def step4_def attempt4_def step5_def
      attempt5_def step6_def attempt6_def twin_fallback_def then_do_def try_except_def
      subscript_def mock_forecast_float do_predictions_of_def do_status_def dict_get_def
      spec_do_status_def)

text \<open>
  C5, amended. In every report of a run: when the attempt of step 5 fails, the count shown
  is the number of fallback predictions below 4.0 and the alert is raised exactly when
  there is one; when it succeeds, the physics result is the model's own, unchanged, and the
  alert and its count are the length of the model's \<^verbatim>\<open>'critical_hours'\<close> (no alert
  when the key is absent), whatever the predictions are.
\<close>

theorem do_status_of_run:
  assumes "run_pipeline cs env img sub = Inr r"
  shows "\<exists>feats. step3 cs sub = Inr (wqi_result r, feats) \<and>
     (case attempt5 cs feats of
        Inl e \<Rightarrow> do_status (pinn_result r) =
                   Inr (spec_do_status (do_predictions_of (pinn_result r)))
      | Inr d \<Rightarrow> pinn_result r = d \<and>
          do_status (pinn_result r) =
            (case d ''critical_hours'' of
               None \<Rightarrow> Inr Safe
             | Some v \<Rightarrow>
                 (case py_len v of
                    Inl e \<Rightarrow> Inl e
                  | Inr n \<Rightarrow> Inr (if n > 0 then Alert n else Safe))))"
proof -
  from assms obtain feats where s3: "step3 cs sub = Inr (wqi_result r, feats)"
    and s5: "step5 cs sub feats = Inr (pinn_result r)"
    by (auto simp: run_pipeline_steps)
  have "(case attempt5 cs feats of
        Inl e \<Rightarrow> do_status (pinn_result r) =
                   Inr (spec_do_status (do_predictions_of (pinn_result r)))
      | Inr d \<Rightarrow> pinn_result r = d \<and>
          do_status (pinn_result r) =
            (case d ''critical_hours'' of
               None \<Rightarrow> Inr Safe
             | Some v \<Rightarrow>
                 (case py_len v of
                    Inl e \<Rightarrow> Inl e
                  | Inr n \<Rightarrow> Inr (if n > 0 then Alert n else Safe))))"
  proof (cases "attempt5 cs feats")
    case (Inl e)
    with s5 have "pinn_result r = pinn_fallback (dissolved_oxygen sub) e"
      by (simp add: step5_def try_except_def)
    with Inl pinn_fallback_status show ?thesis by simp
  next
    case (Inr d)
    with s5 have "pinn_result r = d" by (simp add: step5_def try_except_def)
    with Inr show ?thesis
      by (simp add: do_status_def dict_get_def then_do_def split: option.splits sum.splits)
  qed
  with s3 show ?thesis by blast
qed

theorem do_status_of_run_witness:
  "(\<exists>r. run_pipeline cs_unavailable env_zero ''sample.jpg'' default_submission = Inr r \<and>
       do_status (pinn_result r) = Inr (spec_do_status (do_predictions_of (pinn_result r)))) \<and>
   (\<exists>r. run_pipeline cs_plain_pinn env_zero ''sample.jpg'' default_submission = Inr r \<and>
       do_predictions_of (pinn_result r) = [3, 5] \<and>
       do_status (pinn_result r) = Inr Safe) \<and>
   (\<exists>r. run_pipeline cs_alarm_pinn env_zero ''sample.jpg'' default_submission = Inr r \<and>
       do_predictions_of (pinn_result r) = [5, 6] \<and>
       do_status (pinn_result r) = Inr (Alert 2))"
proof (intro conjI)
  obtain r
    where r: "run_pipeline cs_unavailable env_zero ''sample.jpg'' default_submission = Inr r"
    using run_unavailable by blast
  from do_status_of_run [OF r] obtain feats where
    "(case attempt5 cs_unavailable feats of
        Inl e \<Rightarrow> do_status (pinn_result r) =
                   Inr (spec_do_status (do_predictions_of (pinn_result r)))
      | Inr d \<Rightarrow> pinn_result r = d \<and>
          do_status (pinn_result r) =
            (case d ''critical_hours'' of
               None \<Rightarrow> Inr Safe
             | Some v \<Rightarrow>
                 (case py_len v of
                    Inl e \<Rightarrow> Inl e
                  | Inr n \<Rightarrow> Inr (if n > 0 then Alert n else Safe))))" by blast
  then have "do_status (pinn_result r) = Inr (spec_do_status (do_predictions_of (pinn_result r)))"
    by (simp add: attempt5_def cs_unavailable_def)
  with r show "\<exists>r. run_pipeline cs_unavailable env_zero ''sample.jpg'' default_submission = Inr r \<and>
       do_status (pinn_result r) = Inr (spec_do_status (do_predictions_of (pinn_result r)))"
    by blast
next
  have "\<exists>r. run_pipeline cs_plain_pinn env_zero ''sample.jpg'' default_submission = Inr r"
    by (rule run_completes_with_score)
      (auto simp: cs_plain_pinn_def cs_unavailable_def has_score_def numeric_def)
  then obtain r
    where r: "run_pipeline cs_plain_pinn env_zero ''sample.jpg'' default_submission = Inr r"
    by blast
  from do_status_of_run [OF r] obtain feats
    where s3: "step3 cs_plain_pinn default_submission = Inr (wqi_result r, feats)"
      and c: "(case attempt5 cs_plain_pinn feats of
        Inl e \<Rightarrow> do_status (pinn_result r) =
                   Inr (spec_do_status (do_predictions_of (pinn_result r)))
      | Inr d \<Rightarrow> pinn_result r = d \<and>
          do_status (pinn_result r) =
            (case d ''critical_hours'' of
               None \<Rightarrow> Inr Safe
             | Some v \<Rightarrow>
                 (case py_len v of
                    Inl e \<Rightarrow> Inl e
                  | Inr n \<Rightarrow> Inr (if n > 0 then Alert n else Safe))))" by blast
  let ?d = "[''time_hours'' \<mapsto> PArray [0, 1],
             ''do_predictions'' \<mapsto> PArray [3, 5],
             ''mean_do'' \<mapsto> PFloat 4]"
  from s3 have "feats = Some (wqi_features_of default_submission)"
    by (auto simp: step3_def cs_plain_pinn_def cs_unavailable_def)
  then have a5: "attempt5 cs_plain_pinn feats = Inr ?d"
    by (simp add: attempt5_def cs_plain_pinn_def cs_unavailable_def)
  from c [unfolded a5 sum.case] have cc: "pinn_result r = ?d \<and>
          do_status (pinn_result r) =
            (case ?d ''critical_hours'' of
               None \<Rightarrow> Inr Safe
             | Some v \<Rightarrow>
                 (case py_len v of
                    Inl e \<Rightarrow> Inl e
                  | Inr n \<Rightarrow> Inr (if n > 0 then Alert n else Safe)))" .
  from cc have d: "pinn_result r = ?d" by (rule conjunct1)
  from cc have st: "do_status (pinn_result r) =
            (case ?d ''critical_hours'' of
               None \<Rightarrow> Inr Safe
             | Some v \<Rightarrow>
                 (case py_len v of
                    Inl e \<Rightarrow> Inl e
                  | Inr n \<Rightarrow> Inr (if n > 0 then Alert n else Safe)))"
    by (rule conjunct2)
  have "do_status (pinn_result r) = Inr Safe" unfolding st by simp
  moreover have "do_predictions_of (pinn_result r) = [3, 5]"
    unfolding d by (simp add: do_predictions_of_def)
  ultimately have "do_predictions_of (pinn_result r) = [3, 5] \<and>
      do_status (pinn_result r) = Inr Safe" by (simp only:)
  with r show "\<exists>r. run_pipeline cs_plain_pinn env_zero ''sample.jpg'' default_submission = Inr r \<and>
       do_predictions_of (pinn_result r) = [3, 5] \<and>
       do_status (pinn_result r) = Inr Safe" by blast
next
  have "\<exists>r. run_pipeline cs_alarm_pinn env_zero ''sample.jpg'' default_submission = Inr r"
    by (rule run_completes_with_score)
      (auto simp: cs_alarm_pinn_def cs_unavailable_def has_score_def numeric_def)
  then obtain r
    where r: "run_pipeline cs_alarm_pinn env_zero ''sample.jpg'' default_submission = Inr r"
    by blast
  from do_status_of_run [OF r] obtain feats
    where s3: "step3 cs_alarm_pinn default_submission = Inr (wqi_result r, feats)"
      and c: "(case attempt5 cs_alarm_pinn feats of
        Inl e \<Rightarrow> do_status (pinn_result r) =
                   Inr (spec_do_status (do_predictions_of (pinn_result r)))
      | Inr d \<Rightarrow> pinn_result r = d \<and>
          do_status (pinn_result r) =
            (case d ''critical_hours'' of
               None \<Rightarrow> Inr Safe
             | Some v \<Rightarrow>
                 (case py_len v of
                    Inl e \<Rightarrow> Inl e
                  | Inr n \<Rightarrow> Inr (if n > 0 then Alert n else Safe))))" by blast
  let ?d = "[''time_hours'' \<mapsto> PArray [0, 1],
             ''do_predictions'' \<mapsto> PArray [5, 6],
             ''mean_do'' \<mapsto> PFloat 5.5,
             ''critical_hours'' \<mapsto> PArray [0, 1]]"
  from s3 have "feats = Some (wqi_features_of default_submission)"
    by (auto simp: step3_def cs_alarm_pinn_def cs_unavailable_def)
  then have a5: "attempt5 cs_alarm_pinn feats = Inr ?d"
    by (simp add: attempt5_def cs_alarm_pinn_def cs_unavailable_def)
  from c [unfolded a5 sum.case] have cc: "pinn_result r = ?d \<and>
          do_status (pinn_result r) =
            (case ?d ''critical_hours'' of
               None \<Rightarrow> Inr Safe
             | Some v \<Rightarrow>
                 (case py_len v of
                    Inl e \<Rightarrow> Inl e
                  | Inr n \<Rightarrow> Inr (if n > 0 then Alert n else Safe)))" .
  from cc have d: "pinn_result r = ?d" by (rule conjunct1)
  from cc have st: "do_status (pinn_result r) =
            (case ?d ''critical_hours'' of
               None \<Rightarrow> Inr Safe
             | Some v \<Rightarrow>
                 (case py_len v of
                    Inl e \<Rightarrow> Inl e
                  | Inr n \<Rightarrow> Inr (if n > 0 then Alert n else Safe)))"
    by (rule conjunct2)
  have "do_status (pinn_result r) = Inr (Alert 2)" unfolding st by simp
  moreover have "do_predictions_of (pinn_result r) = [5, 6]"
    unfolding d by (simp add: do_predictions_of_def)
  ultimately have "do_predictions_of (pinn_result r) = [5, 6] \<and>
      do_status (pinn_result r) = Inr (Alert 2)" by (simp only:)
  with r show "\<exists>r. run_pipeline cs_alarm_pinn env_zero ''sample.jpg'' default_submission = Inr r \<and>
       do_predictions_of (pinn_result r) = [5, 6] \<and>
       do_status (pinn_result r) = Inr (Alert 2)" by blast
qed

text \<open>
  Support for C8: the rows of the fallback forecast on a numeric score, and the first two
  values of the specification's random walk when every draw is 1.
\<close>

lemma mock_forecast_int:
  "mock_forecast start samples (PInt i) =
     Inr (map (\<lambda>k. (start + int k * microseconds_per_day, real_of_int i + samples k * 5))
       [0..<60])"
  by (simp add: mock_forecast_def then_do_def date_range_def draw_def zip_map_map
      zip_same_conv_map del: upt_rec_numeral)

lemma step4_fallback_rows:
  assumes "attempt4 cs wqi = Inl e" and "score_value wqi = Some s"
  shows "\<exists>d. step4 cs env wqi = Inr d \<and>
     forecast_rows d =
       Some (map (\<lambda>k. (now env + int k * microseconds_per_day, s + randn_forecast env k * 5))
         [0..<60])"
  using assms
  by (auto simp: step4_def try_except_def score_value_def subscript_def then_do_def
      mock_forecast_float mock_forecast_int forecast_rows_def
      split: option.split_asm pyval.split_asm)

lemma spec_walk_values:
  "spec_random_walk 52.3 (randn_forecast env_one) ! 0 = 57.3 \<and>
   spec_random_walk 52.3 (randn_forecast env_one) ! 1 = 62.3"
proof -
  have "[0..<60::nat] = 0 # 1 # [2..<60]"
    by (simp add: upt_conv_Cons)
  then show ?thesis
    by (simp add: spec_random_walk_def cumsum_def draw_def env_one_def del: upt_rec_numeral)
qed

text \<open>
  C8. The claim: the fallback forecast is the stage 3 score perturbed by a bounded random
  walk across the horizon. With no model installed and every draw equal to 1, the code
  gives 57.3 on the first and on the second day (the score 52.3 plus 5 times that day's
  draw), where a random walk from the score gives 57.3 and then 62.3: the code does not
  accumulate the draws.
\<close>

theorem random_walk_counterexample:
  "(case run_pipeline cs_unavailable env_one ''sample.jpg'' default_submission of
      Inl e \<Rightarrow> False
    | Inr r \<Rightarrow>
        (case forecast_rows (forecast_result r) of
           None \<Rightarrow> False
         | Some rows \<Rightarrow> snd (rows ! 0) = 57.3 \<and> snd (rows ! 1) = 57.3)) \<and>
   spec_random_walk 52.3 (randn_forecast env_one) ! 0 = 57.3 \<and>
   spec_random_walk 52.3 (randn_forecast env_one) ! 1 = 62.3"
proof -
  have "(case run_pipeline cs_unavailable env_one ''sample.jpg'' default_submission of
      Inl e \<Rightarrow> False
    | Inr r \<Rightarrow>
        (case forecast_rows (forecast_result r) of
           None \<Rightarrow> False
         | Some rows \<Rightarrow> snd (rows ! 0) = 57.3 \<and> snd (rows ! 1) = 57.3))"
    by (simp add: run_pipeline_def cs_unavailable_def step1_def attempt1_def
        step2_def attempt2_def step3_def wqi_fallback_def step4_def attempt4_def step5_def
        attempt5_def step6_def attempt6_def twin_fallback_def then_do_def try_except_def
        subscript_def mock_forecast_float forecast_rows_def env_one_def)
  with spec_walk_values show ?thesis by blast
qed

text \<open>
  C8, amended. When the attempt of step 4 fails and the index result carries a numeric
  score, the fallback forecast has 60 rows and the value of day \<open>k\<close> is the score plus
  5 times the \<open>k\<close>-th draw alone; its distance from the score is 5 times the size of
  that draw.
\<close>

theorem fallback_forecast_values:
  assumes "run_pipeline cs env img sub = Inr r"
    and "attempt4 cs (wqi_result r) = Inl e"
    and "score_value (wqi_result r) = Some s"
    and "k < 60"
  shows "\<exists>rows. forecast_rows (forecast_result r) = Some rows \<and> length rows = 60 \<and>
           snd (rows ! k) = s + randn_forecast env k * 5 \<and>
           \<bar>snd (rows ! k) - s\<bar> = 5 * \<bar>randn_forecast env k\<bar>"
proof -
  from assms(1) have "step4 cs env (wqi_result r) = Inr (forecast_result r)"
    by (auto simp: run_pipeline_steps)
  with step4_fallback_rows [OF assms(2,3), of env]
  have "forecast_rows (forecast_result r) =
       Some (map (\<lambda>k. (now env + int k * microseconds_per_day, s + randn_forecast env k * 5))
         [0..<60])"
    by auto
  with assms(4) show ?thesis
    by (simp add: abs_mult del: upt_rec_numeral)
qed

theorem fallback_forecast_values_witness:
  "\<exists>r rows. run_pipeline cs_unavailable env_one ''sample.jpg'' default_submission = Inr r \<and>
     attempt4 cs_unavailable (wqi_result r) = Inl no_models \<and>
     score_value (wqi_result r) = Some 52.3 \<and> (1::nat) < 60 \<and>
     forecast_rows (forecast_result r) = Some rows \<and> length rows = 60 \<and>
     snd (rows ! 1) = 57.3 \<and> \<bar>snd (rows ! 1) - 52.3\<bar> = 5"
proof -
  obtain r
    where r: "run_pipeline cs_unavailable env_one ''sample.jpg'' default_submission = Inr r"
    using run_unavailable by blast
  have a: "attempt4 cs_unavailable (wqi_result r) = Inl no_models"
    by (simp add: attempt4_def cs_unavailable_def)
  from r have "wqi_result r = wqi_fallback no_models"
    by (auto simp: run_pipeline_steps step3_def cs_unavailable_def)
  then have s: "score_value (wqi_result r) = Some 52.3"
    by (simp add: wqi_fallback_def score_value_def)
  from fallback_forecast_values [OF r a s, of 1] r a s show ?thesis
    by (auto simp: env_one_def)
qed

end
